theory Spec2Isabelle
  imports Complex_Main "HOL-Library.Multiset"
begin

section \<open>JavaScript numbers\<close>

text \<open>
  A JavaScript number is an IEEE 754 double. A finite double is modelled by the real it
  denotes, next to the two infinities and \<open>NaN\<close>; every arithmetic operation computes the
  exact real result and rounds it to the nearest double, ties to the even significand.
  The two zeros are not told apart: the service never divides by a zero, and
  \<open>-0 === 0\<close>, so the sign of a zero cannot be seen in its results.
\<close>

datatype number = Num real | PosInf | NegInf | NaN

text \<open>Rounding a real to an integer, a tie going to the even neighbour.\<close>

definition round_even :: "real \<Rightarrow> int" where
  "round_even y =
     (let f = \<lfloor>y\<rfloor>; d = y - of_int f
      in if d < 1 / 2 then f else if 1 / 2 < d then f + 1
         else if even f then f else f + 1)"

text \<open>
  The binary exponent of a positive real, found by halving or doubling it into the
  interval from 1 to 2; the first argument bounds the number of steps.
\<close>

fun norm_exp :: "nat \<Rightarrow> real \<Rightarrow> int" where
  "norm_exp 0 x = 0"
| "norm_exp (Suc n) x =
     (if 2 \<le> x then norm_exp n (x / 2) + 1
      else if x < 1 then norm_exp n (2 * x) - 1
      else 0)"

text \<open>
  The exponent of a double: at least -1022, where the subnormal numbers begin. The 1100
  steps reach every real from 2 to the -1022 up to 2 to the 1024, beyond which a real
  rounds to an infinity.
\<close>

definition exponent :: "real \<Rightarrow> int" where
  "exponent x = (if \<bar>x\<bar> < 2 powi (- 1022) then - 1022 else norm_exp 1100 \<bar>x\<bar>)"

text \<open>Rounding to 53 significant bits: the unit in the last place is 2 to the exponent - 52.\<close>

definition fl :: "real \<Rightarrow> real" where
  "fl x = (let u = 2 powi (exponent x - 52) in of_int (round_even (x / u)) * u)"

text \<open>
  Half way between the largest double and 2 to the 1024: a real of at least this size
  rounds to an infinity.
\<close>

definition overflow_threshold :: real where
  "overflow_threshold = 2 ^ 1024 - 2 ^ 970"

text \<open>
  The double nearest to a real. This is also how a decimal literal of the source and a
  decimal number of a request become numbers.
\<close>

definition double :: "real \<Rightarrow> number" where
  "double x =
     (if overflow_threshold \<le> \<bar>x\<bar> then (if 0 < x then PosInf else NegInf)
      else Num (fl x))"

fun positive :: "number \<Rightarrow> bool" where
  "positive (Num x) = (0 < x)"
| "positive PosInf = True"
| "positive NegInf = False"
| "positive NaN = False"

definition sign_inf :: "bool \<Rightarrow> number" where
  "sign_inf p = (if p then PosInf else NegInf)"

fun nneg :: "number \<Rightarrow> number" where
  "nneg (Num a) = Num (- a)"
| "nneg PosInf = NegInf"
| "nneg NegInf = PosInf"
| "nneg NaN = NaN"

fun nadd :: "number \<Rightarrow> number \<Rightarrow> number" where
  "nadd (Num a) (Num b) = double (a + b)"
| "nadd NaN _ = NaN"
| "nadd _ NaN = NaN"
| "nadd PosInf NegInf = NaN"
| "nadd NegInf PosInf = NaN"
| "nadd PosInf _ = PosInf"
| "nadd NegInf _ = NegInf"
| "nadd _ PosInf = PosInf"
| "nadd _ NegInf = NegInf"

fun nsub :: "number \<Rightarrow> number \<Rightarrow> number" where
  "nsub (Num a) (Num b) = double (a - b)"
| "nsub x y = nadd x (nneg y)"

text \<open>An infinity times zero is \<open>NaN\<close>; otherwise the signs decide.\<close>

fun nmul :: "number \<Rightarrow> number \<Rightarrow> number" where
  "nmul (Num a) (Num b) = double (a * b)"
| "nmul NaN _ = NaN"
| "nmul _ NaN = NaN"
| "nmul (Num a) y = (if a = 0 then NaN else sign_inf (positive (Num a) = positive y))"
| "nmul x (Num b) = (if b = 0 then NaN else sign_inf (positive x = positive (Num b)))"
| "nmul x y = sign_inf (positive x = positive y)"

text \<open>
  Division. A zero divisor is taken as the positive zero. No division of the service has
  a zero divisor: the divisors are the literals 100 and 1000 and a baseline that was
  compared with 0 first.
\<close>

fun ndiv :: "number \<Rightarrow> number \<Rightarrow> number" where
  "ndiv (Num a) (Num b) =
     (if b = 0 then (if a = 0 then NaN else sign_inf (0 < a)) else double (a / b))"
| "ndiv NaN _ = NaN"
| "ndiv _ NaN = NaN"
| "ndiv (Num a) _ = Num 0"
| "ndiv x (Num b) = sign_inf (positive x = (0 \<le> b))"
| "ndiv _ _ = NaN"

text \<open>
  \<open>Math.round\<close>: the nearest integer, a tie going up. The result is exact: below 2 to
  the 52 every integer is a double, and from there on every double is an integer.
\<close>

fun math_round :: "number \<Rightarrow> number" where
  "math_round (Num x) = Num (of_int \<lfloor>x + 1 / 2\<rfloor>)"
| "math_round PosInf = PosInf"
| "math_round NegInf = NegInf"
| "math_round NaN = NaN"

section \<open>JavaScript values used by CarbonFootprintService\<close>

text \<open>
  What a property read of the service can yield: \<open>undefined\<close>, a number, or a member
  inherited from \<open>Object.prototype\<close> (a function or object: truthy, and \<open>NaN\<close> as a
  number).
\<close>

datatype jsval = Undefined | Number number | Inherited

fun to_number :: "jsval \<Rightarrow> number" where
  "to_number Undefined = NaN"
| "to_number (Number n) = n"
| "to_number Inherited = NaN"

fun truthy :: "jsval \<Rightarrow> bool" where
  "truthy Undefined = False"
| "truthy (Number (Num x)) = (x \<noteq> 0)"
| "truthy (Number NaN) = False"
| "truthy (Number PosInf) = True"
| "truthy (Number NegInf) = True"
| "truthy Inherited = True"

text \<open>\<open>a || b\<close>\<close>

definition js_or :: "jsval \<Rightarrow> jsval \<Rightarrow> jsval" where
  "js_or a b = (if truthy a then a else b)"

text \<open>
  The comparisons \<open>a > c\<close>, \<open>a >= c\<close> and \<open>a === c\<close> against a number literal that is a
  double itself (0, 3 and 50 in the service).
\<close>

fun js_gt :: "jsval \<Rightarrow> real \<Rightarrow> bool" where
  "js_gt (Number (Num x)) c = (x > c)"
| "js_gt (Number PosInf) c = True"
| "js_gt _ c = False"

fun js_ge :: "jsval \<Rightarrow> real \<Rightarrow> bool" where
  "js_ge (Number (Num x)) c = (x \<ge> c)"
| "js_ge (Number PosInf) c = True"
| "js_ge _ c = False"

fun strict_eq :: "jsval \<Rightarrow> real \<Rightarrow> bool" where
  "strict_eq (Number (Num x)) c = (x = c)"
| "strict_eq _ c = False"

text \<open>
  Reading an optional numeric field: \<open>undefined\<close> when it is absent. A record holds the
  numbers as the request writes them; the code sees the nearest doubles.
\<close>

fun field :: "real option \<Rightarrow> jsval" where
  "field None = Undefined"
| "field (Some x) = Number (double x)"

text \<open>
  Reading a key of an object literal whose values are number literals: an own property
  first, then the members every plain object inherits from \<open>Object.prototype\<close>.
\<close>

definition object_prototype_keys :: "string list" where
  "object_prototype_keys =
     [''constructor'', ''__defineGetter__'', ''__defineSetter__'', ''hasOwnProperty'',
      ''__lookupGetter__'', ''__lookupSetter__'', ''isPrototypeOf'',
      ''propertyIsEnumerable'', ''toString'', ''valueOf'', ''__proto__'',
      ''toLocaleString'']"

definition get_property :: "(string \<times> real) list \<Rightarrow> string \<Rightarrow> jsval" where
  "get_property obj k =
     (case map_of obj k of
        Some v \<Rightarrow> Number (double v)
      | None \<Rightarrow> if k \<in> set object_prototype_keys then Inherited else Undefined)"

section \<open>The farm record\<close>

record fertilizer_usage =
  synthetic :: "real option"
  organic :: "real option"

record pesticide_usage =
  chemical :: "real option"
  organic :: "real option"

record fuel_usage =
  diesel :: "real option"
  petrol :: "real option"
  electricity :: "real option"

text \<open>
  \<open>area\<close> is the field the service reads (the spec's areaHectares). Every other field
  may be absent. The numbers are the decimal numbers of the request.
\<close>

record farmData =
  area :: real
  fertilizerUsage :: "fertilizer_usage option"
  pesticideUsage :: "pesticide_usage option"
  fuelUsage :: "fuel_usage option"
  irrigationHours :: "real option"
  irrigationType :: "string option"
  transportMethod :: "string option"
  conservationAgriculture :: "bool option"
  mulching :: "bool option"
  cropDiversity :: "real option"

text \<open>A string is truthy when it is present and not empty.\<close>

fun truthy_string :: "string option \<Rightarrow> bool" where
  "truthy_string None = False"
| "truthy_string (Some s) = (s \<noteq> [])"

text \<open>A string used as a property key; \<open>undefined\<close> becomes the key "undefined".\<close>

fun property_key :: "string option \<Rightarrow> string" where
  "property_key None = ''undefined''"
| "property_key (Some s) = s"

fun truthy_bool :: "bool option \<Rightarrow> bool" where
  "truthy_bool None = False"
| "truthy_bool (Some b) = b"

text \<open>\<open>farmData.fertilizerUsage?.synthetic\<close> and its siblings.\<close>

definition fertilizer_synthetic :: "farmData \<Rightarrow> jsval" where
  "fertilizer_synthetic farmData =
     (case fertilizerUsage farmData of None \<Rightarrow> Undefined | Some u \<Rightarrow> field (synthetic u))"

definition fertilizer_organic :: "farmData \<Rightarrow> jsval" where
  "fertilizer_organic farmData =
     (case fertilizerUsage farmData of None \<Rightarrow> Undefined
      | Some u \<Rightarrow> field (fertilizer_usage.organic u))"

definition pesticide_chemical :: "farmData \<Rightarrow> jsval" where
  "pesticide_chemical farmData =
     (case pesticideUsage farmData of None \<Rightarrow> Undefined | Some u \<Rightarrow> field (chemical u))"

definition pesticide_organic :: "farmData \<Rightarrow> jsval" where
  "pesticide_organic farmData =
     (case pesticideUsage farmData of None \<Rightarrow> Undefined
      | Some u \<Rightarrow> field (pesticide_usage.organic u))"

section \<open>Emission factors\<close>

definition emissionFactors :: "(string \<times> real) list" where
  "emissionFactors =
     [(''synthetic_fertilizer'', 4.5),
      (''organic_fertilizer'', 0.8),
      (''urea'', 3.2),
      (''dap'', 2.8),
      (''potash'', 1.2),
      (''chemical_pesticide'', 2.5),
      (''neem_oil'', 0.3),
      (''organic_pesticide'', 0.4),
      (''diesel'', 2.68),
      (''petrol'', 2.31),
      (''electricity'', 0.95),
      (''flood_irrigation'', 0.5),
      (''drip_irrigation'', 0.15),
      (''sprinkler_irrigation'', 0.25),
      (''manual_transport'', 0.0),
      (''bullock_cart'', 0.1),
      (''tractor'', 0.8),
      (''truck'', 0.6)]"

definition factor :: "string \<Rightarrow> jsval" where
  "factor k = get_property emissionFactors k"

text \<open>
  \<open>Math.round(x * 100) / 100\<close>. The integer literals of the service (0, 100, 400, 1000)
  and the literal 0.5 are doubles themselves and are written as such.
\<close>

definition round2 :: "number \<Rightarrow> number" where
  "round2 x = ndiv (math_round (nmul x (Num 100))) (Num 100)"

section \<open>calculateBaselineFootprint\<close>

definition calculateBaselineFootprint :: "farmData \<Rightarrow> number" where
  "calculateBaselineFootprint farmData =
     (let totalFootprint = Num 0;
          totalFootprint =
            (case fertilizerUsage farmData of
               None \<Rightarrow> totalFootprint
             | Some u \<Rightarrow>
                 let syntheticFertilizer = js_or (field (synthetic u)) (Number (Num 0))
                 in nadd totalFootprint
                      (nmul (to_number syntheticFertilizer)
                            (to_number (factor ''synthetic_fertilizer''))));
          totalFootprint =
            (case pesticideUsage farmData of
               None \<Rightarrow> totalFootprint
             | Some u \<Rightarrow>
                 let chemicalPesticide = js_or (field (chemical u)) (Number (Num 0))
                 in nadd totalFootprint
                      (nmul (to_number chemicalPesticide)
                            (to_number (factor ''chemical_pesticide''))));
          totalFootprint =
            (case fuelUsage farmData of
               None \<Rightarrow> totalFootprint
             | Some u \<Rightarrow>
                 let dieselUsed = js_or (field (diesel u)) (Number (Num 0))
                 in nadd totalFootprint
                      (nmul (to_number dieselUsed) (to_number (factor ''diesel''))));
          totalFootprint =
            (if truthy (field (irrigationHours farmData))
                \<and> truthy_string (irrigationType farmData)
             then
               let emissionFactor =
                     js_or (factor (property_key (irrigationType farmData)))
                           (Number (Num 0.5))
               in nadd totalFootprint
                    (nmul (nmul (to_number (field (irrigationHours farmData)))
                                (double (area farmData)))
                          (to_number emissionFactor))
             else totalFootprint)
      in round2 totalFootprint)"

section \<open>calculateEcofriendlyFootprint\<close>

definition calculateEcofriendlyFootprint :: "farmData \<Rightarrow> number" where
  "calculateEcofriendlyFootprint farmData =
     (let totalFootprint = Num 0;
          totalFootprint =
            (case fertilizerUsage farmData of
               None \<Rightarrow> totalFootprint
             | Some u \<Rightarrow>
                 let organicFertilizer =
                       js_or (field (fertilizer_usage.organic u)) (Number (Num 0))
                 in nadd totalFootprint
                      (nmul (to_number organicFertilizer)
                            (to_number (factor ''organic_fertilizer''))));
          totalFootprint =
            (case pesticideUsage farmData of
               None \<Rightarrow> totalFootprint
             | Some u \<Rightarrow>
                 let organicPesticide =
                       js_or (field (pesticide_usage.organic u)) (Number (Num 0))
                 in nadd totalFootprint
                      (nmul (to_number organicPesticide)
                            (to_number (factor ''organic_pesticide''))));
          totalFootprint =
            (if truthy (field (irrigationHours farmData))
                \<and> irrigationType farmData = Some ''drip''
             then nadd totalFootprint
                    (nmul (nmul (to_number (field (irrigationHours farmData)))
                                (double (area farmData)))
                          (to_number (factor ''drip_irrigation'')))
             else totalFootprint);
          totalFootprint =
            (if transportMethod farmData = Some ''manual''
             then nadd totalFootprint (Num 0)
             else totalFootprint)
      in round2 totalFootprint)"

section \<open>calculateCarbonReduction\<close>

definition calculateCarbonReduction :: "number \<Rightarrow> number \<Rightarrow> number" where
  "calculateCarbonReduction baselineFootprint ecofriendlyFootprint =
     (if baselineFootprint = Num 0 then Num 0
      else math_round
             (nmul (ndiv (nsub baselineFootprint ecofriendlyFootprint) baselineFootprint)
                   (Num 100)))"

section \<open>getEcofriendlyRecommendations\<close>

text \<open>A recommendation; \<open>savings\<close> is absent on the two that are always given.\<close>

record recommendation =
  practice :: string
  impact :: string
  savings :: "number option"
  priority :: string
  implementation :: string

text \<open>
  \<open>Array.prototype.sort\<close> with a comparator is a stable sort: an element moves behind
  another one only when the comparator is positive on the pair, and a \<open>NaN\<close> from the
  comparator counts as 0. Insertion from the right end gives that order.
\<close>

fun insert_by :: "('a \<Rightarrow> 'a \<Rightarrow> number) \<Rightarrow> 'a \<Rightarrow> 'a list \<Rightarrow> 'a list" where
  "insert_by cmp x [] = [x]"
| "insert_by cmp x (y # ys) =
     (if positive (cmp x y) then y # insert_by cmp x ys else x # y # ys)"

definition array_sort :: "('a \<Rightarrow> 'a \<Rightarrow> number) \<Rightarrow> 'a list \<Rightarrow> 'a list" where
  "array_sort cmp xs = foldr (insert_by cmp) xs []"

definition priorityOrder :: "(string \<times> real) list" where
  "priorityOrder = [(''high'', 1), (''medium'', 2), (''low'', 3)]"

definition compare_priority :: "recommendation \<Rightarrow> recommendation \<Rightarrow> number" where
  "compare_priority a b =
     nsub (to_number (get_property priorityOrder (priority a)))
          (to_number (get_property priorityOrder (priority b)))"

definition fertilizer_recommendation :: "farmData \<Rightarrow> recommendation" where
  "fertilizer_recommendation farmData =
     \<lparr>practice = ''Switch to organic fertilizer'',
      impact = ''Reduce emissions by 82% for fertilizer'',
      savings = Some (round2 (nmul (to_number (fertilizer_synthetic farmData))
                  (nsub (to_number (factor ''synthetic_fertilizer''))
                        (to_number (factor ''organic_fertilizer''))))),
      priority = ''high'',
      implementation = ''Start using compost, vermicompost, or FYM''\<rparr>"

definition pesticide_recommendation :: "farmData \<Rightarrow> recommendation" where
  "pesticide_recommendation farmData =
     \<lparr>practice = ''Use organic pest control'',
      impact = ''Reduce emissions by 84% for pesticide'',
      savings = Some (round2 (nmul (to_number (pesticide_chemical farmData))
                  (nsub (to_number (factor ''chemical_pesticide''))
                        (to_number (factor ''organic_pesticide''))))),
      priority = ''high'',
      implementation = ''Use neem oil, manual picking, beneficial insects''\<rparr>"

definition irrigation_recommendation :: "farmData \<Rightarrow> recommendation" where
  "irrigation_recommendation farmData =
     \<lparr>practice = ''Install drip irrigation'',
      impact = ''Reduce irrigation emissions by 70%'',
      savings = Some (round2 (nmul
                  (nmul (to_number (field (irrigationHours farmData))) (double (area farmData)))
                  (nsub (to_number (factor (property_key (irrigationType farmData))))
                        (to_number (factor ''drip_irrigation''))))),
      priority = ''high'',
      implementation = ''Investment required, but saves water and reduces labor''\<rparr>"

definition crop_rotation :: recommendation where
  "crop_rotation =
     \<lparr>practice = ''Practice crop rotation'',
      impact = ''Improve soil health, reduce disease, 10-15% yield improvement'',
      savings = None,
      priority = ''medium'',
      implementation = ''Rotate with legumes to fix nitrogen naturally''\<rparr>"

definition conservation_agriculture :: recommendation where
  "conservation_agriculture =
     \<lparr>practice = ''Adopt conservation agriculture'',
      impact = ''Reduce fuel emissions, improve soil carbon'',
      savings = None,
      priority = ''medium'',
      implementation = ''Reduce/zero tilling, mulching, crop residue management''\<rparr>"

text \<open>The list as the pushes build it, before the sort.\<close>

definition pushed_recommendations :: "farmData \<Rightarrow> recommendation list" where
  "pushed_recommendations farmData =
     (let recommendations = [];
          recommendations =
            (if js_gt (fertilizer_synthetic farmData) 0
             then recommendations @ [fertilizer_recommendation farmData]
             else recommendations);
          recommendations =
            (if js_gt (pesticide_chemical farmData) 0
             then recommendations @ [pesticide_recommendation farmData]
             else recommendations);
          recommendations =
            (if irrigationType farmData = Some ''flood''
                \<or> irrigationType farmData = Some ''sprinkler''
             then recommendations @ [irrigation_recommendation farmData]
             else recommendations);
          recommendations = recommendations @ [crop_rotation];
          recommendations = recommendations @ [conservation_agriculture]
      in recommendations)"

definition getEcofriendlyRecommendations :: "farmData \<Rightarrow> recommendation list" where
  "getEcofriendlyRecommendations farmData =
     array_sort compare_priority (pushed_recommendations farmData)"

section \<open>calculateCarbonCreditPotential\<close>




section \<open>calculateSustainabilityScore\<close>

text \<open>The score starts at the literal 50 and only integer literals are added to it.\<close>

definition calculateSustainabilityScore :: "farmData \<Rightarrow> int" where
  "calculateSustainabilityScore farmData =
     (let score = 50;
          score = (if js_ge (fertilizer_organic farmData) 50 then score + 10 else score);
          score = (if strict_eq (fertilizer_synthetic farmData) 0 then score + 5 else score);
          score = (if js_ge (pesticide_organic farmData) 50 then score + 10 else score);
          score = (if strict_eq (pesticide_chemical farmData) 0 then score + 5 else score);
          score = (if irrigationType farmData = Some ''drip'' then score + 15 else score);
          score = (if js_ge (field (cropDiversity farmData)) 3 then score + 10 else score);
          score = (if truthy_bool (conservationAgriculture farmData) then score + 10 else score);
          score = (if truthy_bool (mulching farmData) then score + 5 else score)
      in min 100 (max 0 score))"

section \<open>Quantities the specification names\<close>

text \<open>A usage quantity as a real: an absent field counts as 0.\<close>

fun quantity :: "real option \<Rightarrow> real" where
  "quantity None = 0"
| "quantity (Some x) = x"

definition synthetic_fertilizer_kg :: "farmData \<Rightarrow> real" where
  "synthetic_fertilizer_kg farmData =
     (case fertilizerUsage farmData of None \<Rightarrow> 0 | Some u \<Rightarrow> quantity (synthetic u))"

definition organic_fertilizer_kg :: "farmData \<Rightarrow> real" where
  "organic_fertilizer_kg farmData =
     (case fertilizerUsage farmData of None \<Rightarrow> 0
      | Some u \<Rightarrow> quantity (fertilizer_usage.organic u))"

definition chemical_pesticide_L :: "farmData \<Rightarrow> real" where
  "chemical_pesticide_L farmData =
     (case pesticideUsage farmData of None \<Rightarrow> 0 | Some u \<Rightarrow> quantity (chemical u))"

definition organic_pesticide_L :: "farmData \<Rightarrow> real" where
  "organic_pesticide_L farmData =
     (case pesticideUsage farmData of None \<Rightarrow> 0
      | Some u \<Rightarrow> quantity (pesticide_usage.organic u))"

definition diesel_L :: "farmData \<Rightarrow> real" where
  "diesel_L farmData =
     (case fuelUsage farmData of None \<Rightarrow> 0 | Some u \<Rightarrow> quantity (diesel u))"

text \<open>Rounding a real to two decimals, a tie going up.\<close>

definition round_2dp :: "real \<Rightarrow> real" where
  "round_2dp x = of_int \<lfloor>x * 100 + 1 / 2\<rfloor> / 100"

text \<open>
  The irrigation factor as the specification words it: the table value for flood, drip and
  sprinkler, 0.5 for an absent or unrecognized type. It is compared with the code below.
\<close>

definition claimed_irrigation_factor :: "string option \<Rightarrow> real" where
  "claimed_irrigation_factor t =
     (if t = Some ''flood'' then 0.5
      else if t = Some ''drip'' then 0.15
      else if t = Some ''sprinkler'' then 0.25
      else 0.5)"

definition claimed_baseline :: "farmData \<Rightarrow> real" where
  "claimed_baseline farmData =
     round_2dp (synthetic_fertilizer_kg farmData * 4.5
                + chemical_pesticide_L farmData * 2.5
                + diesel_L farmData * 2.68
                + quantity (irrigationHours farmData) * area farmData
                  * claimed_irrigation_factor (irrigationType farmData))"

definition claimed_drip_savings :: "farmData \<Rightarrow> real" where
  "claimed_drip_savings farmData =
     round_2dp (quantity (irrigationHours farmData) * area farmData
                * (claimed_irrigation_factor (irrigationType farmData) - 0.15))"


text \<open>The rank of a recommendation's priority: high 1, medium 2, low 3.\<close>

definition priority_rank :: "recommendation \<Rightarrow> nat" where
  "priority_rank r =
     (if priority r = ''high'' then 1 else if priority r = ''medium'' then 2 else 3)"

definition known_priority :: "recommendation \<Rightarrow> bool" where
  "known_priority r = (priority r \<in> {''high'', ''medium'', ''low''})"

text \<open>A bonus of the sustainability score: \<open>n\<close> points when the condition holds.\<close>

definition bonus :: "bool \<Rightarrow> int \<Rightarrow> int" where
  "bonus c n = (if c then n else 0)"


definition claimed_reduction :: "real \<Rightarrow> real \<Rightarrow> real" where
  "claimed_reduction baseline eco =
     (if baseline = 0 then 0
      else of_int \<lfloor>(baseline - eco) / baseline * 100 + 1 / 2\<rfloor>)"


definition claimed_value :: "real \<Rightarrow> real" where
  "claimed_value reductionKg = round_2dp (reductionKg / 1000 * 400)"

text \<open>
  The score as the specification words it: the organic share is the organic part of the
  whole usage in percent, and a quantity is zero also when its field is absent.
\<close>

definition organic_share :: "real \<Rightarrow> real \<Rightarrow> real" where
  "organic_share organic_part other_part =
     (if organic_part + other_part = 0 then 0
      else organic_part / (organic_part + other_part) * 100)"

definition claimed_score :: "farmData \<Rightarrow> int" where
  "claimed_score farmData =
     min 100 (max 0 (50
       + bonus (50 \<le> organic_share (organic_fertilizer_kg farmData)
                        (synthetic_fertilizer_kg farmData)) 10
       + bonus (synthetic_fertilizer_kg farmData = 0) 5
       + bonus (50 \<le> organic_share (organic_pesticide_L farmData)
                        (chemical_pesticide_L farmData)) 10
       + bonus (chemical_pesticide_L farmData = 0) 5
       + bonus (irrigationType farmData = Some ''drip'') 15
       + bonus (3 \<le> quantity (cropDiversity farmData)) 10
       + bonus (truthy_bool (conservationAgriculture farmData)) 10
       + bonus (truthy_bool (mulching farmData)) 5))"

text \<open>A number is representable when it is an infinity, \<open>NaN\<close> or a double.\<close>

fun representable :: "number \<Rightarrow> bool" where
  "representable (Num v) = (double v = Num v)"
| "representable _ = True"

section \<open>Example records\<close>

text \<open>Ten hours of irrigation on two hectares and nothing else, for a given type.\<close>

definition irrigated_farm :: "string option \<Rightarrow> farmData" where
  "irrigated_farm t =
     \<lparr>area = 2, fertilizerUsage = None, pesticideUsage = None, fuelUsage = None,
      irrigationHours = Some 10, irrigationType = t, transportMethod = None,
      conservationAgriculture = None, mulching = None, cropDiversity = None\<rparr>"

definition sample_farm :: farmData where
  "sample_farm =
     \<lparr>area = 2,
      fertilizerUsage = Some \<lparr>synthetic = Some 100, organic = Some 60\<rparr>,
      pesticideUsage = Some \<lparr>chemical = Some 0, organic = Some 50\<rparr>,
      fuelUsage = Some \<lparr>diesel = Some 10, petrol = None, electricity = None\<rparr>,
      irrigationHours = Some 10, irrigationType = Some ''flood'',
      transportMethod = Some ''manual'', conservationAgriculture = Some True,
      mulching = Some False, cropDiversity = Some 3\<rparr>"

text \<open>A farm that earns every bonus of the score.\<close>

definition green_farm :: farmData where
  "green_farm =
     \<lparr>area = 1,
      fertilizerUsage = Some \<lparr>synthetic = Some 0, organic = Some 80\<rparr>,
      pesticideUsage = Some \<lparr>chemical = Some 0, organic = Some 50\<rparr>,
      fuelUsage = None,
      irrigationHours = Some 4, irrigationType = Some ''drip'',
      transportMethod = Some ''manual'', conservationAgriculture = Some True,
      mulching = Some True, cropDiversity = Some 4\<rparr>"

text \<open>Every usage field present and zero.\<close>

definition idle_farm :: farmData where
  "idle_farm =
     \<lparr>area = 1,
      fertilizerUsage = Some \<lparr>synthetic = Some 0, organic = Some 0\<rparr>,
      pesticideUsage = Some \<lparr>chemical = Some 0, organic = Some 0\<rparr>,
      fuelUsage = Some \<lparr>diesel = Some 0, petrol = Some 0, electricity = Some 0\<rparr>,
      irrigationHours = Some 0, irrigationType = Some ''rainfed'',
      transportMethod = Some ''manual'', conservationAgriculture = Some False,
      mulching = Some False, cropDiversity = Some 1\<rparr>"

text \<open>Records on which a product or a sum of the code is just below a rounding tie.\<close>

definition tie_farm :: farmData where
  "tie_farm =
     \<lparr>area = 1,
      fertilizerUsage = Some \<lparr>synthetic = Some 0.75, organic = None\<rparr>,
      pesticideUsage = None,
      fuelUsage = Some \<lparr>diesel = Some 5, petrol = None, electricity = None\<rparr>,
      irrigationHours = None, irrigationType = None, transportMethod = None,
      conservationAgriculture = None, mulching = None, cropDiversity = None\<rparr>"


text \<open>Fifty kilograms of organic fertilizer next to a thousand of synthetic.\<close>

definition share_farm :: farmData where
  "share_farm =
     \<lparr>area = 1,
      fertilizerUsage = Some \<lparr>synthetic = Some 1000, organic = Some 50\<rparr>,
      pesticideUsage = Some \<lparr>chemical = Some 10, organic = Some 0\<rparr>,
      fuelUsage = None,
      irrigationHours = None, irrigationType = None, transportMethod = None,
      conservationAgriculture = None, mulching = None, cropDiversity = None\<rparr>"

section \<open>Rounding to a double\<close>

lemma p_suc: "(2::real) powi (k + 1) = 2 * 2 powi k"
  by (simp add: power_int_add_1')

lemma p_pred: "(2::real) powi (k - 1) = 2 powi k / 2"
  using p_suc [of "k - 1"] by simp

lemma norm_exp_bounds:
  assumes "2 powi (- int n) \<le> x" "x < 2 powi (int n + 1)"
  shows "2 powi (norm_exp n x) \<le> x \<and> x < 2 powi (norm_exp n x + 1)"
  using assms
proof (induction n arbitrary: x)
  case 0
  then show ?case by simp
next
  case (Suc n)
  show ?case
  proof (cases "2 \<le> x")
    case True
    have a: "2 powi (- int n) \<le> x / 2"
    proof -
      have "(2::real) powi (- int n) \<le> 2 powi 0"
        by (rule power_int_increasing) simp_all
      with True show ?thesis by simp
    qed
    have b: "x / 2 < 2 powi (int n + 1)"
      using Suc.prems(2) p_suc [of "int n + 1"] by (simp add: add.commute)
    define k where "k = norm_exp n (x / 2)"
    from Suc.IH [OF a b] have ih: "2 powi k \<le> x / 2" "x / 2 < 2 powi (k + 1)"
      by (simp_all add: k_def)
    have e: "norm_exp (Suc n) x = k + 1" using True by (simp add: k_def)
    have "(2::real) powi (k + 1) = 2 * 2 powi k" "(2::real) powi (k + 1 + 1) = 2 * 2 powi (k + 1)"
      by (rule p_suc)+
    with ih have "2 powi (k + 1) \<le> x \<and> x < 2 powi (k + 1 + 1)" by linarith
    then show ?thesis unfolding e .
  next
    case False
    show ?thesis
    proof (cases "x < 1")
      case True
      have "(2::real) powi (- int (Suc n)) = 2 powi (- int n - 1)"
        by (rule arg_cong [where f = "\<lambda>k. 2 powi k"]) simp
      also have "\<dots> = 2 powi (- int n) / 2" by (rule p_pred)
      finally have a: "2 powi (- int n) \<le> 2 * x" using Suc.prems(1) by linarith
      have "(2::real) powi 1 \<le> 2 powi (int n + 1)"
        by (rule power_int_increasing) simp_all
      with True have b: "2 * x < 2 powi (int n + 1)" by simp
      define k where "k = norm_exp n (2 * x)"
      from Suc.IH [OF a b] have ih: "2 powi k \<le> 2 * x" "2 * x < 2 powi (k + 1)"
        by (simp_all add: k_def)
      have e: "norm_exp (Suc n) x = k - 1" using True \<open>\<not> 2 \<le> x\<close> by (simp add: k_def)
      have "(2::real) powi (k - 1) = 2 powi k / 2" by (rule p_pred)
      moreover have "(2::real) powi (k - 1 + 1) = 2 * 2 powi (k - 1)" by (rule p_suc)
      moreover have "(2::real) powi (k + 1) = 2 * 2 powi k" by (rule p_suc)
      ultimately have "2 powi (k - 1) \<le> x \<and> x < 2 powi (k - 1 + 1)" using ih by linarith
      then show ?thesis unfolding e .
    next
      case False
      with \<open>\<not> 2 \<le> x\<close> show ?thesis by simp
    qed
  qed
qed

lemma pow_unique:
  assumes "(2::real) powi j \<le> y" "y < 2 powi (k + 1)"
  shows "j \<le> k"
proof (rule ccontr)
  assume "\<not> j \<le> k"
  then have "k + 1 \<le> j" by simp
  then have "(2::real) powi (k + 1) \<le> 2 powi j"
    by (rule power_int_increasing) simp
  with assms show False by simp
qed

lemma exponent_normal:
  assumes "2 powi k \<le> \<bar>y\<bar>" "\<bar>y\<bar> < 2 powi (k + 1)" "- 1022 \<le> k" "k \<le> 1100"
  shows "exponent y = k"
proof -
  have "(2::real) powi (- 1022) \<le> 2 powi k"
    using assms(3) by (rule power_int_increasing) simp
  with assms(1) have n: "\<not> \<bar>y\<bar> < 2 powi (- 1022)" by simp
  have "(2::real) powi (- int 1100) \<le> 2 powi k"
    by (rule power_int_increasing) (use assms(3) in simp_all)
  with assms(1) have lo: "2 powi (- int 1100) \<le> \<bar>y\<bar>" by simp
  have "(2::real) powi (k + 1) \<le> 2 powi (int 1100 + 1)"
    by (rule power_int_increasing) (use assms(4) in simp_all)
  with assms(2) have hi: "\<bar>y\<bar> < 2 powi (int 1100 + 1)" by simp
  from norm_exp_bounds [OF lo hi]
  have b: "2 powi (norm_exp 1100 \<bar>y\<bar>) \<le> \<bar>y\<bar>" "\<bar>y\<bar> < 2 powi (norm_exp 1100 \<bar>y\<bar> + 1)"
    by simp_all
  have "norm_exp 1100 \<bar>y\<bar> \<le> k" using pow_unique [OF b(1) assms(2)] .
  moreover have "k \<le> norm_exp 1100 \<bar>y\<bar>" using pow_unique [OF assms(1) b(2)] .
  ultimately show ?thesis using n by (simp add: exponent_def)
qed

lemma exponent_bounds:
  assumes "\<bar>x\<bar> < 2 powi 1024"
  shows "- 1022 \<le> exponent x \<and> exponent x \<le> 1023 \<and> \<bar>x\<bar> < 2 powi (exponent x + 1)
         \<and> (2 powi (exponent x) \<le> \<bar>x\<bar> \<or> (exponent x = - 1022 \<and> \<bar>x\<bar> < 2 powi (- 1022)))"
proof (cases "\<bar>x\<bar> < 2 powi (- 1022)")
  case True
  have "(2::real) powi (- 1022) \<le> 2 powi (- 1022 + 1)"
    by (rule power_int_increasing) simp_all
  with True show ?thesis by (simp add: exponent_def)
next
  case False
  have "(2::real) powi (- int 1100) \<le> 2 powi (- 1022)"
    by (rule power_int_increasing) simp_all
  with False have lo: "2 powi (- int 1100) \<le> \<bar>x\<bar>" by simp
  have "(2::real) powi 1024 \<le> 2 powi (int 1100 + 1)"
    by (rule power_int_increasing) simp_all
  with assms have hi: "\<bar>x\<bar> < 2 powi (int 1100 + 1)" by simp
  from norm_exp_bounds [OF lo hi]
  have b: "2 powi (norm_exp 1100 \<bar>x\<bar>) \<le> \<bar>x\<bar>" "\<bar>x\<bar> < 2 powi (norm_exp 1100 \<bar>x\<bar> + 1)"
    by simp_all
  have e: "exponent x = norm_exp 1100 \<bar>x\<bar>" using False by (simp add: exponent_def)
  have "\<bar>x\<bar> < 2 powi (1023 + 1)" using assms by simp
  from pow_unique [OF b(1) this] have u: "exponent x \<le> 1023" using e by simp
  have "2 powi (- 1022) \<le> \<bar>x\<bar>" using False by simp
  from pow_unique [OF this b(2)] have l: "- 1022 \<le> exponent x" using e by simp
  from u l b e show ?thesis by simp
qed


lemma pow_add_nat: "(2::real) powi (e + int n) = 2 ^ n * 2 powi e"
  by (simp add: power_int_add)

lemma pow_shift: "i = e + int n \<Longrightarrow> (2::real) powi i = 2 ^ n * 2 powi e"
  by (simp only: pow_add_nat)

lemma round_even_int: "round_even (of_int m) = m"
  by (simp add: round_even_def)

lemma round_even_ge: "of_int a \<le> y \<Longrightarrow> a \<le> round_even y"
  by (simp add: round_even_def Let_def le_floor_iff) linarith

lemma round_even_le:
  assumes "y \<le> of_int b"
  shows "round_even y \<le> b"
proof (cases "y = of_int \<lfloor>y\<rfloor>")
  case True
  then have "round_even y = \<lfloor>y\<rfloor>" by (simp add: round_even_def Let_def)
  moreover have "\<lfloor>y\<rfloor> \<le> b" using assms by (simp add: floor_le_iff)
  ultimately show ?thesis by simp
next
  case False
  then have "of_int \<lfloor>y\<rfloor> < y" using of_int_floor_le [of y] by linarith
  with assms have "of_int \<lfloor>y\<rfloor> < (of_int b :: real)" by linarith
  then have "\<lfloor>y\<rfloor> < b" by simp
  moreover have "round_even y \<le> \<lfloor>y\<rfloor> + 1" by (simp add: round_even_def Let_def)
  ultimately show ?thesis by linarith
qed

lemma round_even_near: "\<bar>of_int (round_even y) - y\<bar> \<le> 1 / 2"
proof -
  have "of_int \<lfloor>y\<rfloor> \<le> y" "y < of_int \<lfloor>y\<rfloor> + 1" by linarith+
  then show ?thesis by (auto simp add: round_even_def Let_def)
qed

lemma fl_representable:
  assumes "\<bar>x\<bar> < 2 powi 1024"
  shows "fl (fl x) = fl x"
proof -
  define k where "k = exponent x"
  define e where "e = k - 52"
  define u :: real where "u = 2 powi e"
  define m where "m = round_even (x / u)"
  define v where "v = of_int m * u"
  have v: "fl x = v" by (simp add: fl_def Let_def k_def e_def u_def m_def v_def)
  have u_pos: "0 < u" by (simp add: u_def)
  from exponent_bounds [OF assms]
  have kb: "- 1022 \<le> k" "k \<le> 1023" "\<bar>x\<bar> < 2 powi (k + 1)"
    "2 powi k \<le> \<bar>x\<bar> \<or> (k = - 1022 \<and> \<bar>x\<bar> < 2 powi (- 1022))"
    by (simp_all add: k_def)
  have shift: "2 powi i = 2 ^ n * u" if "i = e + int n" for i n
    unfolding that u_def by (rule pow_add_nat)
  have pk: "2 powi k = 2 ^ 52 * u"
    by (rule shift) (simp add: e_def)
  have pk1: "2 powi (k + 1) = 2 ^ 53 * u"
    by (rule shift) (simp add: e_def)
  have pk2: "2 powi (k + 1 + 1) = 2 ^ 54 * u"
    by (rule shift) (simp add: e_def)
  have xu: "\<bar>x / u\<bar> < 2 ^ 53"
    using kb(3) u_pos by (simp add: pk1 abs_divide pos_divide_less_eq)
  from xu have xu': "x / u \<le> 2 ^ 53" "- (2 ^ 53) \<le> x / u" by linarith+
  have m_hi: "m \<le> 2 ^ 53"
    unfolding m_def by (rule round_even_le) (use xu'(1) in simp)
  have m_lo: "- (2 ^ 53) \<le> m"
    unfolding m_def by (rule round_even_ge) (use xu'(2) in simp)
  have abs_v: "\<bar>v\<bar> = of_int \<bar>m\<bar> * u"
    using u_pos by (simp add: v_def abs_mult)
  show ?thesis
  proof (cases "\<bar>m\<bar> = 2 ^ 53")
    case True
    have av: "\<bar>v\<bar> = 2 powi (k + 1)" using True by (simp add: abs_v pk1)
    have "\<bar>v\<bar> < 2 powi (k + 1 + 1)" unfolding av pk1 pk2 using u_pos by simp
    with av have "exponent v = k + 1"
      using kb(1,2) by (intro exponent_normal) simp_all
    moreover have "2 powi (k + 1 - 52) = 2 ^ 1 * u"
      by (rule shift) (simp add: e_def)
    moreover have "even \<bar>m\<bar>" unfolding True by simp
    then have "even m" by simp
    then obtain h where h: "m = 2 * h" by (auto elim: evenE)
    ultimately have "fl v = of_int (round_even (v / (2 * u))) * (2 * u)"
      by (simp add: fl_def Let_def)
    moreover have "v / (2 * u) = of_int h" using u_pos by (simp add: v_def h)
    ultimately have "fl v = of_int h * (2 * u)" by (simp add: round_even_int)
    then show ?thesis by (simp add: v v_def h)
  next
    case False
    with m_hi m_lo have "\<bar>m\<bar> \<le> 2 ^ 53 - 1" by linarith
    then have "(of_int \<bar>m\<bar> :: real) \<le> of_int (2 ^ 53 - 1)"
      by (simp only: of_int_le_iff)
    then have "(of_int \<bar>m\<bar> :: real) \<le> 2 ^ 53 - 1"
      by simp
    then have "of_int \<bar>m\<bar> * u \<le> (2 ^ 53 - 1) * u"
      using u_pos by (intro mult_right_mono) simp_all
    moreover have "(2 ^ 53 - 1) * u < 2 ^ 53 * u"
      using u_pos by simp
    ultimately have v_hi: "\<bar>v\<bar> < 2 powi (k + 1)"
      unfolding abs_v pk1 by linarith
    have "exponent v = k"
    proof (cases "2 powi k \<le> \<bar>v\<bar>")
      case True
      then show ?thesis using v_hi kb(1,2) by (intro exponent_normal) simp_all
    next
      case small: False
      have "\<not> 2 powi k \<le> \<bar>x\<bar>"
      proof
        assume "2 powi k \<le> \<bar>x\<bar>"
        then have big: "2 ^ 52 \<le> \<bar>x / u\<bar>"
          using u_pos by (simp add: pk abs_divide pos_le_divide_eq)
        have "2 ^ 52 \<le> \<bar>m\<bar>"
        proof (cases "0 \<le> x / u")
          case True
          with big have "of_int (2 ^ 52) \<le> x / u" by simp
          then have "2 ^ 52 \<le> m" unfolding m_def by (rule round_even_ge)
          then show ?thesis by simp
        next
          case False
          with big have "x / u \<le> of_int (- (2 ^ 52))" by simp
          then have "m \<le> - (2 ^ 52)" unfolding m_def by (rule round_even_le)
          then show ?thesis by simp
        qed
        then have "(of_int (2 ^ 52) :: real) \<le> of_int \<bar>m\<bar>"
          by (simp only: of_int_le_iff)
        then have "(2 ^ 52 :: real) \<le> of_int \<bar>m\<bar>"
          by simp
        then have "2 ^ 52 * u \<le> of_int \<bar>m\<bar> * u"
          using u_pos by (intro mult_right_mono) simp_all
        with small show False unfolding abs_v pk by linarith
      qed
      with kb(4) have "k = - 1022" by simp
      with small show ?thesis by (simp add: exponent_def)
    qed
    then have "fl v = of_int (round_even (v / u)) * u"
      by (simp add: fl_def Let_def u_def e_def)
    moreover have "v / u = of_int m" using u_pos by (simp add: v_def)
    ultimately show ?thesis by (simp add: round_even_int v v_def)
  qed
qed


lemma threshold_below: "overflow_threshold < 2 powi 1024"
  by (simp add: overflow_threshold_def)

lemma fl_below_threshold:
  assumes "\<bar>x\<bar> < overflow_threshold"
  shows "\<bar>fl x\<bar> < overflow_threshold"
proof -
  have x1024: "\<bar>x\<bar> < 2 powi 1024" using assms threshold_below by linarith
  define k where "k = exponent x"
  define e where "e = k - 52"
  define u :: real where "u = 2 powi e"
  define m where "m = round_even (x / u)"
  have v: "fl x = of_int m * u" by (simp add: fl_def Let_def k_def e_def u_def m_def)
  have u_pos: "0 < u" by (simp add: u_def)
  have abs_v: "\<bar>fl x\<bar> = of_int \<bar>m\<bar> * u"
    using u_pos by (simp add: v abs_mult)
  from exponent_bounds [OF x1024]
  have kb: "k \<le> 1023" "\<bar>x\<bar> < 2 powi (k + 1)"
    by (simp_all add: k_def)
  have "(2::real) powi (k + 1) = 2 ^ 53 * 2 powi e"
    by (rule pow_shift) (simp add: e_def)
  with kb(2) have "\<bar>x\<bar> < 2 ^ 53 * u" by (simp only: u_def)
  then have xu: "\<bar>x / u\<bar> < 2 ^ 53"
    using u_pos by (simp add: abs_divide pos_divide_less_eq)
  then have xu': "x / u \<le> 2 ^ 53" "- (2 ^ 53) \<le> x / u" by linarith+
  have m_hi: "m \<le> 2 ^ 53"
    unfolding m_def by (rule round_even_le) (use xu'(1) in simp)
  have m_lo: "- (2 ^ 53) \<le> m"
    unfolding m_def by (rule round_even_ge) (use xu'(2) in simp)
  show ?thesis
  proof (cases "k = 1023")
    case True
    then have u: "u = 2 ^ 971" by (simp add: u_def e_def)
    have "\<bar>x\<bar> < (2 ^ 53 - 1 / 2) * u"
      using assms by (simp add: u overflow_threshold_def)
    then have "\<bar>x / u\<bar> < 2 ^ 53 - 1 / 2"
      using u_pos by (simp add: abs_divide pos_divide_less_eq)
    moreover have "\<bar>of_int m - x / u\<bar> \<le> 1 / 2"
      unfolding m_def by (rule round_even_near)
    ultimately have "\<bar>of_int m :: real\<bar> < 2 ^ 53" by linarith
    then have "(of_int \<bar>m\<bar> :: real) < of_int (2 ^ 53)" by simp
    then have "\<bar>m\<bar> < 2 ^ 53" by (simp only: of_int_less_iff)
    then have "\<bar>m\<bar> \<le> 2 ^ 53 - 1" by linarith
    then have "(of_int \<bar>m\<bar> :: real) \<le> of_int (2 ^ 53 - 1)"
      by (simp only: of_int_le_iff)
    then have "(of_int \<bar>m\<bar> :: real) \<le> 2 ^ 53 - 1" by simp
    then have "of_int \<bar>m\<bar> * u \<le> (2 ^ 53 - 1) * u"
      using u_pos by (intro mult_right_mono) simp_all
    moreover have "(2 ^ 53 - 1) * u < overflow_threshold"
      by (simp add: u overflow_threshold_def)
    ultimately show ?thesis unfolding abs_v by linarith
  next
    case False
    with kb(1) have "e \<le> 970" by (simp add: e_def)
    then have "u \<le> 2 powi 970"
      unfolding u_def by (rule power_int_increasing) simp
    then have u: "u \<le> 2 ^ 970" by simp
    have "\<bar>m\<bar> \<le> 2 ^ 53" using m_hi m_lo by linarith
    then have "(of_int \<bar>m\<bar> :: real) \<le> of_int (2 ^ 53)"
      by (simp only: of_int_le_iff)
    then have "(of_int \<bar>m\<bar> :: real) \<le> 2 ^ 53" by simp
    then have "of_int \<bar>m\<bar> * u \<le> 2 ^ 53 * 2 ^ 970"
      using u u_pos by (intro mult_mono) simp_all
    moreover have "(2 ^ 53 * 2 ^ 970 :: real) < overflow_threshold"
      by (simp add: overflow_threshold_def)
    ultimately show ?thesis unfolding abs_v by linarith
  qed
qed

text \<open>A value that \<open>double\<close> returns is a double: rounding it again changes nothing.\<close>

lemma double_idem:
  assumes "double x = Num v"
  shows "double v = Num v"
proof -
  from assms have x: "\<bar>x\<bar> < overflow_threshold" and v: "v = fl x"
    by (auto simp add: double_def split: if_splits)
  have "\<bar>x\<bar> < 2 powi 1024" using x threshold_below by linarith
  then have "fl v = v" unfolding v by (rule fl_representable)
  moreover have "\<bar>v\<bar> < overflow_threshold" unfolding v using x by (rule fl_below_threshold)
  ultimately show ?thesis by (simp add: double_def)
qed

lemma fl_zero: "fl 0 = 0"
  by (simp add: fl_def round_even_def)

lemma double_zero: "double 0 = Num 0"
  by (simp add: double_def fl_zero overflow_threshold_def)

lemma norm_exp_numeral:
  "norm_exp (numeral k) x =
     (if 2 \<le> x then norm_exp (pred_numeral k) (x / 2) + 1
      else if x < 1 then norm_exp (pred_numeral k) (2 * x) - 1
      else 0)"
  by (simp add: numeral_eq_Suc)

lemmas double_eval = double_def overflow_threshold_def fl_def exponent_def norm_exp_numeral
  round_even_def Let_def power_int_minus

section \<open>Arithmetic on doubles\<close>

lemma double_not_NaN: "double x \<noteq> NaN"
  by (simp add: double_def)

lemma double_in_range: "\<bar>x\<bar> < overflow_threshold \<Longrightarrow> double x = Num (fl x)"
  by (simp add: double_def)

lemma representable_double: "representable (double x)"
  by (cases "double x") (simp_all add: double_idem)

lemma representable_zero: "representable (Num 0)"
  by (simp add: double_zero)

lemma representable_sign_inf: "representable (sign_inf p)"
  by (simp add: sign_inf_def)

lemma representable_nadd: "representable (nadd a b)"
  by (cases a; cases b) (simp_all add: representable_double)

lemma representable_nmul: "representable (nmul a b)"
  by (cases a; cases b) (simp_all add: representable_double representable_sign_inf)

lemma nadd_zero_right: "representable a \<Longrightarrow> nadd a (Num 0) = a"
  by (cases a) simp_all

lemma nadd_zero_left: "representable a \<Longrightarrow> nadd (Num 0) a = a"
  by (cases a) simp_all

lemma nmul_NaN_right: "nmul a NaN = NaN"
  by (cases a) simp_all

lemma ndiv_not_NaN: "x \<noteq> NaN \<Longrightarrow> b \<noteq> 0 \<Longrightarrow> ndiv x (Num b) \<noteq> NaN"
  by (cases x) (simp_all add: double_not_NaN sign_inf_def)

lemma nmul_not_NaN: "x \<noteq> NaN \<Longrightarrow> c \<noteq> 0 \<Longrightarrow> nmul x (Num c) \<noteq> NaN"
  by (cases x) (simp_all add: double_not_NaN sign_inf_def)

lemma math_round_not_NaN: "x \<noteq> NaN \<Longrightarrow> math_round x \<noteq> NaN"
  by (cases x) simp_all


lemma nmul_zero_double: "\<bar>c\<bar> < overflow_threshold \<Longrightarrow> nmul (Num 0) (double c) = Num 0"
  by (simp add: double_in_range double_zero)

section \<open>Reading the fields and the table\<close>

lemma or_zero: "to_number (js_or (field q) (Number (Num 0))) = double (quantity q)"
proof (cases q)
  case None
  then show ?thesis by (simp add: js_or_def double_zero)
next
  case (Some x)
  then show ?thesis
    using double_not_NaN [of x] by (cases "double x") (simp_all add: js_or_def)
qed

lemma truthy_field: "truthy (field q) \<Longrightarrow> to_number (field q) = double (quantity q)"
  by (cases q) simp_all

lemma falsy_field: "\<not> truthy (field q) \<Longrightarrow> double (quantity q) = Num 0"
proof (cases q)
  case None
  then show ?thesis by (simp add: double_zero)
next
  case (Some x)
  assume "\<not> truthy (field q)"
  with Some show ?thesis
    using double_not_NaN [of x] by (cases "double x") simp_all
qed

lemma factor_table:
  "factor ''synthetic_fertilizer'' = Number (double 4.5)"
  "factor ''organic_fertilizer'' = Number (double 0.8)"
  "factor ''chemical_pesticide'' = Number (double 2.5)"
  "factor ''organic_pesticide'' = Number (double 0.4)"
  "factor ''diesel'' = Number (double 2.68)"
  "factor ''drip_irrigation'' = Number (double 0.15)"
  by (simp_all add: factor_def get_property_def emissionFactors_def)

text \<open>
  The irrigation keys of the table end in \<open>_irrigation\<close>, so the bare enum strings are
  not keys of it.
\<close>

lemma factor_bare_type:
  "factor ''flood'' = Undefined"
  "factor ''drip'' = Undefined"
  "factor ''sprinkler'' = Undefined"
  "factor ''rainfed'' = Undefined"
  by (simp_all add: factor_def get_property_def emissionFactors_def object_prototype_keys_def)

lemma factor_undefined_key: "factor ''undefined'' = Undefined"
  by (simp add: factor_def get_property_def emissionFactors_def object_prototype_keys_def)

lemma js_or_Undefined: "js_or Undefined b = b"
  by (simp add: js_or_def)

lemma round2_zero: "round2 (Num 0) = Num 0"
  by (simp add: round2_def double_zero)

section \<open>The baseline footprint\<close>

text \<open>
  A usage object that is present adds its product to the total, and an absent one leaves
  the total as it is, which is what adding the product of a zero quantity does. The
  irrigation term is added when the hours are truthy and the type is; with falsy hours
  the product is zero, on a finite area. So the baseline is one sum of four terms when
  the irrigation type is not found in the table.
\<close>

lemma baseline_sum:
  assumes "factor (property_key (irrigationType farmData)) = Undefined"
    and "\<bar>area farmData\<bar> < overflow_threshold"
  shows "calculateBaselineFootprint farmData =
     round2 (nadd (nadd (nadd
               (nmul (double (synthetic_fertilizer_kg farmData)) (double 4.5))
               (nmul (double (chemical_pesticide_L farmData)) (double 2.5)))
               (nmul (double (diesel_L farmData)) (double 2.68)))
               (if truthy_string (irrigationType farmData)
                then nmul (nmul (double (quantity (irrigationHours farmData)))
                                (double (area farmData))) (Num 0.5)
                else Num 0))"
proof -
  have a: "double (area farmData) = Num (fl (area farmData))"
    using assms(2) by (rule double_in_range)
  show ?thesis
  proof (cases "truthy (field (irrigationHours farmData))")
    case True
    then have "to_number (field (irrigationHours farmData))
               = double (quantity (irrigationHours farmData))"
      by (rule truthy_field)
    with True show ?thesis
      by (simp add: calculateBaselineFootprint_def Let_def assms(1) js_or_Undefined
          factor_table nmul_zero_double overflow_threshold_def or_zero double_zero a
          representable_zero representable_nadd representable_nmul nadd_zero_left
          nadd_zero_right synthetic_fertilizer_kg_def chemical_pesticide_L_def diesel_L_def
          split: option.splits)
  next
    case False
    then have "double (quantity (irrigationHours farmData)) = Num 0"
      by (rule falsy_field)
    with False show ?thesis
      by (simp add: calculateBaselineFootprint_def Let_def assms(1) js_or_Undefined
          factor_table nmul_zero_double overflow_threshold_def or_zero double_zero a
          representable_zero representable_nadd representable_nmul nadd_zero_left
          nadd_zero_right synthetic_fertilizer_kg_def chemical_pesticide_L_def diesel_L_def
          split: option.splits)
  qed
qed

text \<open>
  Claim C1, as stated, fails on the code. At ten irrigation hours on two hectares: with
  no irrigation type the code adds no irrigation term and returns 0, where the claimed
  default factor 0.5 gives 10; with drip and with sprinkler the code uses the fallback 0.5
  and returns 10, where the claimed table factors 0.15 and 0.25 give 3 and 5. And the
  code computes in doubles: with 0.75 kg of synthetic fertilizer and 5 l of diesel the sum
  times 100 is just below 1677.5, so the code returns 16.77 where the exact sum 16.775
  rounds to 16.78.
\<close>

theorem baseline_footprint_claim_fails:
  "calculateBaselineFootprint (irrigated_farm None) = Num 0
   \<and> claimed_baseline (irrigated_farm None) = 10
   \<and> calculateBaselineFootprint (irrigated_farm (Some ''drip'')) = Num 10
   \<and> claimed_baseline (irrigated_farm (Some ''drip'')) = 3
   \<and> calculateBaselineFootprint (irrigated_farm (Some ''sprinkler'')) = Num 10
   \<and> claimed_baseline (irrigated_farm (Some ''sprinkler'')) = 5
   \<and> calculateBaselineFootprint (irrigated_farm None)
       \<noteq> Num (claimed_baseline (irrigated_farm None))
   \<and> calculateBaselineFootprint (irrigated_farm (Some ''drip''))
       \<noteq> Num (claimed_baseline (irrigated_farm (Some ''drip'')))
   \<and> calculateBaselineFootprint (irrigated_farm (Some ''sprinkler''))
       \<noteq> Num (claimed_baseline (irrigated_farm (Some ''sprinkler'')))
   \<and> calculateBaselineFootprint tie_farm = double 16.77
   \<and> claimed_baseline tie_farm = 16.78
   \<and> double 16.77 \<noteq> double 16.78"
proof -
  have code: "calculateBaselineFootprint (irrigated_farm None) = Num 0"
    "calculateBaselineFootprint (irrigated_farm (Some ''drip'')) = Num 10"
    "calculateBaselineFootprint (irrigated_farm (Some ''sprinkler'')) = Num 10"
    by (simp_all add: calculateBaselineFootprint_def Let_def irrigated_farm_def
        factor_bare_type js_or_def round2_def double_eval)
  have claim: "claimed_baseline (irrigated_farm None) = 10"
    "claimed_baseline (irrigated_farm (Some ''drip'')) = 3"
    "claimed_baseline (irrigated_farm (Some ''sprinkler'')) = 5"
    "claimed_baseline tie_farm = 16.78"
    by (simp_all add: irrigated_farm_def tie_farm_def claimed_baseline_def
        claimed_irrigation_factor_def round_2dp_def synthetic_fertilizer_kg_def
        chemical_pesticide_L_def diesel_L_def)
  have tie: "calculateBaselineFootprint tie_farm = double 16.77"
    by (simp add: calculateBaselineFootprint_def Let_def tie_farm_def factor_table
        js_or_def round2_def double_eval)
  have "double 16.77 \<noteq> double 16.78"
    by (simp add: double_eval)
  with code claim tie show ?thesis by simp
qed

text \<open>
  Claim C1, amended: for every record with a finite area whose irrigation type is absent,
  flood or rainfed, calculateBaselineFootprint returns \<open>Math.round(s * 100) / 100\<close>,
  where \<open>s\<close> is the sum synthetic * 4.5 + chemical * 2.5 + diesel * 2.68 + irrigation
  term computed in double arithmetic, every product, sum and quotient rounded to the
  nearest double. The irrigation term is 0 when the type is absent and
  hours * area * 0.5 for flood and for the unrecognized rainfed; absent and zero
  quantities contribute nothing. Drip and sprinkler are left out of the statement.
\<close>

theorem baseline_footprint_amended:
  assumes "irrigationType farmData = None \<or> irrigationType farmData = Some ''flood''
           \<or> irrigationType farmData = Some ''rainfed''"
    and "\<bar>area farmData\<bar> < overflow_threshold"
  shows "calculateBaselineFootprint farmData =
     round2 (nadd (nadd (nadd
               (nmul (double (synthetic_fertilizer_kg farmData)) (double 4.5))
               (nmul (double (chemical_pesticide_L farmData)) (double 2.5)))
               (nmul (double (diesel_L farmData)) (double 2.68)))
               (if irrigationType farmData = None then Num 0
                else nmul (nmul (double (quantity (irrigationHours farmData)))
                                (double (area farmData))) (Num 0.5)))"
proof -
  have "factor (property_key (irrigationType farmData)) = Undefined"
    using assms(1) by (auto simp add: factor_bare_type factor_undefined_key)
  from baseline_sum [OF this assms(2)] show ?thesis
    using assms(1) by auto
qed

theorem baseline_footprint_amended_witness:
  "irrigationType sample_farm = Some ''flood''
   \<and> \<bar>area sample_farm\<bar> < overflow_threshold
   \<and> calculateBaselineFootprint sample_farm = double 486.8
   \<and> irrigationType tie_farm = None
   \<and> \<bar>area tie_farm\<bar> < overflow_threshold
   \<and> calculateBaselineFootprint tie_farm = double 16.77"
proof -
  have t: "irrigationType sample_farm = Some ''flood''" "irrigationType tie_farm = None"
    by (simp_all add: sample_farm_def tie_farm_def)
  have a: "\<bar>area sample_farm\<bar> < overflow_threshold" "\<bar>area tie_farm\<bar> < overflow_threshold"
    by (simp_all add: sample_farm_def tie_farm_def overflow_threshold_def)
  have h1: "irrigationType sample_farm = None \<or> irrigationType sample_farm = Some ''flood''
           \<or> irrigationType sample_farm = Some ''rainfed''"
    and h2: "irrigationType tie_farm = None \<or> irrigationType tie_farm = Some ''flood''
           \<or> irrigationType tie_farm = Some ''rainfed''"
    using t by simp_all
  have "calculateBaselineFootprint sample_farm = double 486.8"
    using baseline_footprint_amended [OF h1 a(1)]
    by (simp add: sample_farm_def synthetic_fertilizer_kg_def chemical_pesticide_L_def
        diesel_L_def round2_def double_eval)
  moreover have "calculateBaselineFootprint tie_farm = double 16.77"
    using baseline_footprint_amended [OF h2 a(2)]
    by (simp add: tie_farm_def synthetic_fertilizer_kg_def chemical_pesticide_L_def
        diesel_L_def round2_def double_eval)
  ultimately show ?thesis using t a by simp
qed



section \<open>The eco-friendly footprint\<close>





section \<open>The reduction percentage\<close>

text \<open>
  Claim C3, as stated, fails on the code: the code computes in doubles. At baseline 40
  and eco 17 the quotient 23 / 40 rounds to a double just below 0.575 and its product
  with 100 to one just below 57.5, so the code returns 57, where the exact value 57.5
  rounds to 58. At baseline 40 and eco 51 the code returns -28, where the exact value
  -27.5 rounds to -27.
\<close>

theorem carbon_reduction_claim_fails:
  "calculateCarbonReduction (Num 40) (Num 17) = Num 57
   \<and> claimed_reduction 40 17 = 58
   \<and> calculateCarbonReduction (Num 40) (Num 51) = Num (- 28)
   \<and> claimed_reduction 40 51 = - 27"
proof -
  have "calculateCarbonReduction (Num 40) (Num 17) = Num 57"
    "calculateCarbonReduction (Num 40) (Num 51) = Num (- 28)"
    by (simp_all add: calculateCarbonReduction_def double_eval)
  moreover have "claimed_reduction 40 17 = 58" "claimed_reduction 40 51 = - 27"
    by (simp_all add: claimed_reduction_def)
  ultimately show ?thesis by simp
qed

text \<open>
  Claim C3, amended: on two finite numbers, calculateCarbonReduction returns 0 when the
  baseline is 0 and otherwise \<open>Math.round\<close> of (baseline - eco) / baseline * 100 computed
  in double arithmetic, the difference, the quotient and the product each rounded to the
  nearest double; it never returns \<open>NaN\<close> and divides only by a nonzero baseline; equal
  arguments give 0.
\<close>

theorem carbon_reduction_amended:
  "calculateCarbonReduction (Num baseline) (Num eco) =
     (if baseline = 0 then Num 0
      else math_round
             (nmul (ndiv (nsub (Num baseline) (Num eco)) (Num baseline)) (Num 100)))
   \<and> calculateCarbonReduction (Num baseline) (Num eco) \<noteq> NaN
   \<and> calculateCarbonReduction (Num baseline) (Num baseline) = Num 0"
proof -
  have r: "calculateCarbonReduction (Num baseline) (Num eco) =
     (if baseline = 0 then Num 0
      else math_round
             (nmul (ndiv (nsub (Num baseline) (Num eco)) (Num baseline)) (Num 100)))"
    by (simp add: calculateCarbonReduction_def)
  have "calculateCarbonReduction (Num baseline) (Num eco) \<noteq> NaN"
  proof (cases "baseline = 0")
    case True
    then show ?thesis by (simp add: calculateCarbonReduction_def)
  next
    case False
    have "nsub (Num baseline) (Num eco) \<noteq> NaN" by (simp add: double_not_NaN)
    then have "ndiv (nsub (Num baseline) (Num eco)) (Num baseline) \<noteq> NaN"
      using False by (rule ndiv_not_NaN)
    then have "nmul (ndiv (nsub (Num baseline) (Num eco)) (Num baseline)) (Num 100) \<noteq> NaN"
      by (rule nmul_not_NaN) simp
    then have "math_round
        (nmul (ndiv (nsub (Num baseline) (Num eco)) (Num baseline)) (Num 100)) \<noteq> NaN"
      by (rule math_round_not_NaN)
    with False show ?thesis unfolding r by simp
  qed
  moreover have "calculateCarbonReduction (Num baseline) (Num baseline) = Num 0"
    by (simp add: calculateCarbonReduction_def double_zero)
  ultimately show ?thesis using r by simp
qed

theorem carbon_reduction_amended_witness:
  "calculateCarbonReduction (Num 0) (Num 7) = Num 0
   \<and> calculateCarbonReduction (Num 100) (Num 0) = Num 100
   \<and> calculateCarbonReduction (Num 40) (Num 17) = Num 57"
  using carbon_reduction_amended [of 0 7] carbon_reduction_amended [of 100 0]
    carbon_reduction_amended [of 40 17]
  by (simp add: double_eval)

section \<open>The carbon credit potential\<close>




section \<open>The sustainability score\<close>

lemma if_add_bonus: "(if c then s + n else s) = s + bonus c n"
  by (simp add: bonus_def)

lemma score_sum:
  "calculateSustainabilityScore farmData =
     min 100 (max 0 (50
       + bonus (js_ge (fertilizer_organic farmData) 50) 10
       + bonus (strict_eq (fertilizer_synthetic farmData) 0) 5
       + bonus (js_ge (pesticide_organic farmData) 50) 10
       + bonus (strict_eq (pesticide_chemical farmData) 0) 5
       + bonus (irrigationType farmData = Some ''drip'') 15
       + bonus (js_ge (field (cropDiversity farmData)) 3) 10
       + bonus (truthy_bool (conservationAgriculture farmData)) 10
       + bonus (truthy_bool (mulching farmData)) 5))"
  unfolding calculateSustainabilityScore_def Let_def if_add_bonus ..

lemma bonus_nonneg: "0 \<le> n \<Longrightarrow> 0 \<le> bonus c n"
  by (simp add: bonus_def)

text \<open>
  Claim C4, as stated, fails on the code. With 50 kg of organic next to 1000 kg of
  synthetic fertilizer the organic share is under 5 percent, yet the code adds 10, since
  it tests the organic amount, and returns 60 where the claim gives 50. With no
  fertilizer and no pesticide usage in the record the synthetic and the chemical
  quantities are zero, yet the code adds nothing, since it tests the fields with
  \<open>=== 0\<close>, and returns 50 where the claim gives 60.
\<close>

theorem sustainability_score_claim_fails:
  "calculateSustainabilityScore share_farm = 60
   \<and> claimed_score share_farm = 50
   \<and> calculateSustainabilityScore (irrigated_farm None) = 50
   \<and> claimed_score (irrigated_farm None) = 60"
proof -
  have "calculateSustainabilityScore share_farm = 60"
    by (simp add: score_sum share_farm_def bonus_def fertilizer_organic_def
        fertilizer_synthetic_def pesticide_organic_def pesticide_chemical_def double_eval)
  moreover have "claimed_score share_farm = 50"
    by (simp add: claimed_score_def share_farm_def bonus_def organic_share_def
        organic_fertilizer_kg_def synthetic_fertilizer_kg_def organic_pesticide_L_def
        chemical_pesticide_L_def)
  moreover have "calculateSustainabilityScore (irrigated_farm None) = 50"
    by (simp add: score_sum irrigated_farm_def bonus_def fertilizer_organic_def
        fertilizer_synthetic_def pesticide_organic_def pesticide_chemical_def)
  moreover have "claimed_score (irrigated_farm None) = 60"
    by (simp add: claimed_score_def irrigated_farm_def bonus_def organic_share_def
        organic_fertilizer_kg_def synthetic_fertilizer_kg_def organic_pesticide_L_def
        chemical_pesticide_L_def)
  ultimately show ?thesis by simp
qed

text \<open>
  Claim C4, amended: calculateSustainabilityScore returns 50 plus eight independent
  bonuses, clamped to the range from 0 to 100, and the bonuses are: the organic
  fertilizer amount (the field \<open>organic\<close> of the usage object, not a share) is present and
  at least 50 (+10), the synthetic fertilizer field is present and equal to 0 (+5; an
  absent field or usage object earns nothing), the same two for organic and chemical
  pesticide (+10, +5), the irrigation type is drip (+15), the crop diversity is present
  and at least 3 (+10), the conservation agriculture flag is set (+10), the mulching flag
  is set (+5).
\<close>

theorem sustainability_score_formula:
  "calculateSustainabilityScore farmData =
     min 100 (max 0 (50
       + bonus (js_ge (fertilizer_organic farmData) 50) 10
       + bonus (strict_eq (fertilizer_synthetic farmData) 0) 5
       + bonus (js_ge (pesticide_organic farmData) 50) 10
       + bonus (strict_eq (pesticide_chemical farmData) 0) 5
       + bonus (irrigationType farmData = Some ''drip'') 15
       + bonus (js_ge (field (cropDiversity farmData)) 3) 10
       + bonus (truthy_bool (conservationAgriculture farmData)) 10
       + bonus (truthy_bool (mulching farmData)) 5))
   \<and> 0 \<le> calculateSustainabilityScore farmData
   \<and> calculateSustainabilityScore farmData \<le> 100"
  using score_sum [of farmData] by simp

theorem sustainability_score_formula_witness:
  "calculateSustainabilityScore sample_farm = 95
   \<and> calculateSustainabilityScore green_farm = 100
   \<and> calculateSustainabilityScore (irrigated_farm None) = 50"
  using sustainability_score_formula [of sample_farm]
    sustainability_score_formula [of green_farm]
    sustainability_score_formula [of "irrigated_farm None"]
  by (simp add: sample_farm_def green_farm_def irrigated_farm_def bonus_def
      fertilizer_organic_def fertilizer_synthetic_def pesticide_organic_def
      pesticide_chemical_def double_eval)

text \<open>
  Claim C10: the score is at least 50 and at most 100 on every record: each bonus is
  nonnegative, so the lower clamp at 0 never acts.
\<close>

theorem sustainability_score_at_least_50:
  "50 \<le> calculateSustainabilityScore farmData
   \<and> calculateSustainabilityScore farmData \<le> 100
   \<and> calculateSustainabilityScore farmData =
       min 100 (50
         + bonus (js_ge (fertilizer_organic farmData) 50) 10
         + bonus (strict_eq (fertilizer_synthetic farmData) 0) 5
         + bonus (js_ge (pesticide_organic farmData) 50) 10
         + bonus (strict_eq (pesticide_chemical farmData) 0) 5
         + bonus (irrigationType farmData = Some ''drip'') 15
         + bonus (js_ge (field (cropDiversity farmData)) 3) 10
         + bonus (truthy_bool (conservationAgriculture farmData)) 10
         + bonus (truthy_bool (mulching farmData)) 5)"
proof -
  let ?sum = "50
         + bonus (js_ge (fertilizer_organic farmData) 50) 10
         + bonus (strict_eq (fertilizer_synthetic farmData) 0) 5
         + bonus (js_ge (pesticide_organic farmData) 50) 10
         + bonus (strict_eq (pesticide_chemical farmData) 0) 5
         + bonus (irrigationType farmData = Some ''drip'') 15
         + bonus (js_ge (field (cropDiversity farmData)) 3) 10
         + bonus (truthy_bool (conservationAgriculture farmData)) 10
         + bonus (truthy_bool (mulching farmData)) 5"
  have "50 \<le> ?sum"
    by (simp add: add_nonneg_nonneg bonus_nonneg)
  moreover have "calculateSustainabilityScore farmData = min 100 (max 0 ?sum)"
    by (rule score_sum)
  ultimately show ?thesis by simp
qed

theorem sustainability_score_at_least_50_witness:
  "50 \<le> calculateSustainabilityScore (irrigated_farm None)
   \<and> calculateSustainabilityScore (irrigated_farm None) \<le> 50"
  using sustainability_score_at_least_50 [of "irrigated_farm None"]
  by (simp add: irrigated_farm_def bonus_def fertilizer_organic_def
      fertilizer_synthetic_def pesticide_organic_def pesticide_chemical_def)

section \<open>The recommendations\<close>

text \<open>
  On recommendations whose priority is high, medium or low, the comparator is positive
  exactly when the first rank is the greater one, so the sort of the service is the stable
  insertion sort by rank.
\<close>

lemma compare_rank:
  assumes "known_priority a" "known_priority b"
  shows "positive (compare_priority a b) = (\<not> priority_rank a \<le> priority_rank b)"
  using assms
  by (auto simp add: known_priority_def compare_priority_def get_property_def
      priorityOrder_def priority_rank_def double_eval)

lemma insert_by_insort:
  assumes "known_priority x" "\<forall>y\<in>set ys. known_priority y"
  shows "insert_by compare_priority x ys = insort_key priority_rank x ys"
  using assms by (induction ys) (simp_all add: compare_rank)

lemma array_sort_sort_key:
  assumes "\<forall>y\<in>set xs. known_priority y"
  shows "array_sort compare_priority xs = sort_key priority_rank xs"
  using assms
proof (induction xs)
  case Nil
  then show ?case by (simp add: array_sort_def)
next
  case (Cons x xs)
  then have "array_sort compare_priority xs = sort_key priority_rank xs" by simp
  moreover have "\<forall>y\<in>set (sort_key priority_rank xs). known_priority y"
    using Cons.prems by simp
  ultimately show ?case
    using Cons.prems insert_by_insort [of x "sort_key priority_rank xs"]
    by (simp add: array_sort_def)
qed

lemma pushed_known: "\<forall>r\<in>set (pushed_recommendations farmData). known_priority r"
  by (simp add: pushed_recommendations_def Let_def known_priority_def
      fertilizer_recommendation_def pesticide_recommendation_def
      irrigation_recommendation_def crop_rotation_def conservation_agriculture_def)

lemma recommendations_sort_key:
  "getEcofriendlyRecommendations farmData =
     sort_key priority_rank (pushed_recommendations farmData)"
  by (simp add: getEcofriendlyRecommendations_def array_sort_sort_key pushed_known)

text \<open>The pushes already come in rank order, so the sort moves nothing.\<close>

lemma pushed_sorted: "sorted (map priority_rank (pushed_recommendations farmData))"
  by (simp add: pushed_recommendations_def Let_def priority_rank_def
      fertilizer_recommendation_def pesticide_recommendation_def
      irrigation_recommendation_def crop_rotation_def conservation_agriculture_def)

lemma sorted_already:
  "getEcofriendlyRecommendations farmData = pushed_recommendations farmData"
  unfolding recommendations_sort_key using pushed_sorted by (rule sort_key_id_if_sorted)

lemma irrigation_savings_NaN:
  assumes "irrigationType farmData = Some ''flood''
           \<or> irrigationType farmData = Some ''sprinkler''"
  shows "savings (irrigation_recommendation farmData) = Some NaN"
  using assms
  by (auto simp add: irrigation_recommendation_def factor_bare_type round2_def
      nmul_NaN_right)

lemma irrigation_recommendation_given:
  assumes "irrigationType farmData = Some ''flood''
           \<or> irrigationType farmData = Some ''sprinkler''"
  shows "irrigation_recommendation farmData \<in> set (getEcofriendlyRecommendations farmData)"
  using assms by (auto simp add: sorted_already pushed_recommendations_def Let_def)

text \<open>
  Claim C5 fails on the code. For flood (and sprinkler) the recommendation is given, but
  its savings are \<open>NaN\<close>: the table has no key \<open>flood\<close>, the read yields \<open>undefined\<close>,
  and \<open>undefined - 0.15\<close> is \<open>NaN\<close>. At ten flood hours on two hectares the claim
  gives 10 * 2 * (0.5 - 0.15) = 7.
\<close>

theorem drip_savings_on_flood_farm:
  "getEcofriendlyRecommendations (irrigated_farm (Some ''flood'')) =
     [irrigation_recommendation (irrigated_farm (Some ''flood'')), crop_rotation,
      conservation_agriculture]
   \<and> practice (irrigation_recommendation (irrigated_farm (Some ''flood'')))
       = ''Install drip irrigation''
   \<and> savings (irrigation_recommendation (irrigated_farm (Some ''flood''))) = Some NaN
   \<and> claimed_drip_savings (irrigated_farm (Some ''flood'')) = 7"
proof -
  let ?farm = "irrigated_farm (Some ''flood'')"
  have t: "irrigationType ?farm = Some ''flood''"
    by (simp add: irrigated_farm_def)
  have "getEcofriendlyRecommendations ?farm =
          [irrigation_recommendation ?farm, crop_rotation, conservation_agriculture]"
    using t
    by (simp add: sorted_already pushed_recommendations_def Let_def)
       (simp add: irrigated_farm_def fertilizer_synthetic_def pesticide_chemical_def)
  moreover have "savings (irrigation_recommendation ?farm) = Some NaN"
    using t by (simp add: irrigation_savings_NaN)
  moreover have "claimed_drip_savings ?farm = 7"
    by (simp add: irrigated_farm_def claimed_drip_savings_def claimed_irrigation_factor_def
        round_2dp_def)
  ultimately show ?thesis
    by (simp add: irrigation_recommendation_def)
qed

text \<open>
  Claim C6: the list getEcofriendlyRecommendations returns is sorted by priority rank
  (high 1, medium 2, low 3); the sort is stable, that is, the items of each rank keep the
  order in which the rules pushed them, and it only permutes the pushed items; no item of
  priority medium stands before an item of priority high.
\<close>

theorem recommendations_stably_sorted:
  "sorted (map priority_rank (getEcofriendlyRecommendations farmData))
   \<and> (\<forall>k. filter (\<lambda>r. priority_rank r = k) (getEcofriendlyRecommendations farmData)
          = filter (\<lambda>r. priority_rank r = k) (pushed_recommendations farmData))
   \<and> mset (getEcofriendlyRecommendations farmData) = mset (pushed_recommendations farmData)
   \<and> (\<forall>i j. i < j \<and> j < length (getEcofriendlyRecommendations farmData) \<longrightarrow>
          \<not> (priority (getEcofriendlyRecommendations farmData ! i) = ''medium''
             \<and> priority (getEcofriendlyRecommendations farmData ! j) = ''high''))"
proof -
  let ?rs = "getEcofriendlyRecommendations farmData"
  have s: "sorted (map priority_rank ?rs)"
    by (simp add: recommendations_sort_key)
  have "\<not> (priority (?rs ! i) = ''medium'' \<and> priority (?rs ! j) = ''high'')"
    if "i < j" "j < length ?rs" for i j
  proof
    assume a: "priority (?rs ! i) = ''medium'' \<and> priority (?rs ! j) = ''high''"
    have "map priority_rank ?rs ! i \<le> map priority_rank ?rs ! j"
      using s that by (simp add: sorted_iff_nth_mono)
    then have "priority_rank (?rs ! i) \<le> priority_rank (?rs ! j)"
      using that by simp
    with a show False by (simp add: priority_rank_def)
  qed
  then have m: "\<forall>i j. i < j \<and> j < length ?rs \<longrightarrow>
          \<not> (priority (?rs ! i) = ''medium'' \<and> priority (?rs ! j) = ''high'')"
    by blast
  have st: "\<forall>k. filter (\<lambda>r. priority_rank r = k) ?rs
          = filter (\<lambda>r. priority_rank r = k) (pushed_recommendations farmData)"
    by (simp add: recommendations_sort_key sort_key_stable)
  have ms: "mset ?rs = mset (pushed_recommendations farmData)"
    by (simp add: recommendations_sort_key)
  from s st ms m show ?thesis by (intro conjI)
qed

theorem recommendations_stably_sorted_witness:
  "(0::nat) < 2 \<and> 2 < length (getEcofriendlyRecommendations sample_farm)
   \<and> \<not> (priority (getEcofriendlyRecommendations sample_farm ! 0) = ''medium''
         \<and> priority (getEcofriendlyRecommendations sample_farm ! 2) = ''high'')
   \<and> map priority (getEcofriendlyRecommendations sample_farm)
       = [''high'', ''high'', ''medium'', ''medium'']
   \<and> sorted (map priority_rank (getEcofriendlyRecommendations sample_farm))"
proof -
  have rs: "getEcofriendlyRecommendations sample_farm =
          [fertilizer_recommendation sample_farm, irrigation_recommendation sample_farm,
           crop_rotation, conservation_agriculture]"
    by (simp add: sorted_already pushed_recommendations_def Let_def)
       (simp add: sample_farm_def fertilizer_synthetic_def pesticide_chemical_def
        double_eval)
  have len: "(0::nat) < 2 \<and> 2 < length (getEcofriendlyRecommendations sample_farm)"
    by (simp add: rs)
  from recommendations_stably_sorted [of sample_farm] len
  have "\<not> (priority (getEcofriendlyRecommendations sample_farm ! 0) = ''medium''
         \<and> priority (getEcofriendlyRecommendations sample_farm ! 2) = ''high'')"
    and "sorted (map priority_rank (getEcofriendlyRecommendations sample_farm))"
    by blast+
  moreover have "map priority (getEcofriendlyRecommendations sample_farm)
       = [''high'', ''high'', ''medium'', ''medium'']"
    by (simp add: rs fertilizer_recommendation_def irrigation_recommendation_def
        crop_rotation_def conservation_agriculture_def)
  ultimately show ?thesis using len by simp
qed

section \<open>The record with no usage\<close>

text \<open>
  Claim C7: when every usage quantity is zero (or absent) and the irrigation type is
  neither flood nor sprinkler, so that no conditional rule fires, the baseline footprint
  is 0, the eco-friendly footprint is 0, the reduction of the two is 0, and the
  recommendations are the two that are always given, crop rotation and conservation
  agriculture, neither of which has a savings field.
\<close>

theorem all_zero_record:
  assumes "synthetic_fertilizer_kg farmData = 0" "organic_fertilizer_kg farmData = 0"
    "chemical_pesticide_L farmData = 0" "organic_pesticide_L farmData = 0"
    "diesel_L farmData = 0" "quantity (irrigationHours farmData) = 0"
    "irrigationType farmData \<noteq> Some ''flood''"
    "irrigationType farmData \<noteq> Some ''sprinkler''"
  shows "calculateBaselineFootprint farmData = Num 0
    \<and> calculateEcofriendlyFootprint farmData = Num 0
    \<and> calculateCarbonReduction (calculateBaselineFootprint farmData)
         (calculateEcofriendlyFootprint farmData) = Num 0
    \<and> getEcofriendlyRecommendations farmData = [crop_rotation, conservation_agriculture]
    \<and> savings crop_rotation = None \<and> savings conservation_agriculture = None"
proof -
  have h: "\<not> truthy (field (irrigationHours farmData))"
    using assms(6) by (cases "irrigationHours farmData") (simp_all add: double_zero)
  have b: "calculateBaselineFootprint farmData = Num 0"
    using assms(1,3,5) h
    by (cases "fertilizerUsage farmData"; cases "pesticideUsage farmData";
        cases "fuelUsage farmData")
       (simp_all add: calculateBaselineFootprint_def Let_def factor_table or_zero
        double_zero nmul_zero_double overflow_threshold_def round2_zero
        synthetic_fertilizer_kg_def chemical_pesticide_L_def diesel_L_def)
  have e: "calculateEcofriendlyFootprint farmData = Num 0"
    using assms(2,4) h
    by (cases "fertilizerUsage farmData"; cases "pesticideUsage farmData")
       (simp_all add: calculateEcofriendlyFootprint_def Let_def factor_table or_zero
        double_zero nmul_zero_double overflow_threshold_def round2_zero
        organic_fertilizer_kg_def organic_pesticide_L_def)
  have s: "\<not> js_gt (fertilizer_synthetic farmData) 0"
    using assms(1)
    by (cases "fertilizerUsage farmData")
       (auto simp add: fertilizer_synthetic_def synthetic_fertilizer_kg_def double_zero
        elim!: quantity.elims)
  have c: "\<not> js_gt (pesticide_chemical farmData) 0"
    using assms(3)
    by (cases "pesticideUsage farmData")
       (auto simp add: pesticide_chemical_def chemical_pesticide_L_def double_zero
        elim!: quantity.elims)
  have r: "getEcofriendlyRecommendations farmData = [crop_rotation, conservation_agriculture]"
    using assms(7,8) s c by (simp add: sorted_already pushed_recommendations_def)
  show ?thesis
    using b e r
    by (simp add: calculateCarbonReduction_def crop_rotation_def conservation_agriculture_def)
qed

theorem all_zero_record_witness:
  "synthetic_fertilizer_kg idle_farm = 0 \<and> organic_fertilizer_kg idle_farm = 0
   \<and> chemical_pesticide_L idle_farm = 0 \<and> organic_pesticide_L idle_farm = 0
   \<and> diesel_L idle_farm = 0 \<and> quantity (irrigationHours idle_farm) = 0
   \<and> irrigationType idle_farm = Some ''rainfed''
   \<and> calculateBaselineFootprint idle_farm = Num 0
   \<and> calculateEcofriendlyFootprint idle_farm = Num 0
   \<and> calculateCarbonReduction (calculateBaselineFootprint idle_farm)
        (calculateEcofriendlyFootprint idle_farm) = Num 0
   \<and> getEcofriendlyRecommendations idle_farm = [crop_rotation, conservation_agriculture]"
proof -
  have h: "synthetic_fertilizer_kg idle_farm = 0" "organic_fertilizer_kg idle_farm = 0"
    "chemical_pesticide_L idle_farm = 0" "organic_pesticide_L idle_farm = 0"
    "diesel_L idle_farm = 0" "quantity (irrigationHours idle_farm) = 0"
    "irrigationType idle_farm \<noteq> Some ''flood''"
    "irrigationType idle_farm \<noteq> Some ''sprinkler''"
    by (simp_all add: idle_farm_def synthetic_fertilizer_kg_def organic_fertilizer_kg_def
        chemical_pesticide_L_def organic_pesticide_L_def diesel_L_def)
  have t: "irrigationType idle_farm = Some ''rainfed''"
    by (simp add: idle_farm_def)
  from all_zero_record [OF h] h(1-6) t show ?thesis by (intro conjI) (elim conjE, assumption)+
qed

end
